theory Spec2Isabelle
  imports Complex_Main "HOL-Library.Word" "HOL-Library.List_Lexorder"
begin

section \<open>JavaScript strings\<close>

text \<open>
  A JavaScript string is a sequence of UTF-16 code units. Literals of the source are
  written \<open>js ''...''\<close>; characters outside ASCII are given by their code units.
\<close>

type_synonym code_unit = "16 word"
type_synonym jsstring = "code_unit list"

definition js :: "string \<Rightarrow> jsstring" where
  "js s = map (\<lambda>c. of_char c) s"

text \<open>
  \<open>String.prototype.trim\<close> removes the code units of WhiteSpace and LineTerminator
  (as current ECMAScript defines them) from both ends.
\<close>

definition js_whitespace :: "code_unit \<Rightarrow> bool" where
  "js_whitespace c \<longleftrightarrow>
     c \<in> {0x0009, 0x000A, 0x000B, 0x000C, 0x000D, 0x0020, 0x00A0, 0x1680,
          0x2028, 0x2029, 0x202F, 0x205F, 0x3000, 0xFEFF}
     \<or> (0x2000 \<le> c \<and> c \<le> 0x200A)"

definition js_trim :: "jsstring \<Rightarrow> jsstring" where
  "js_trim s = rev (dropWhile js_whitespace (rev (dropWhile js_whitespace s)))"

section \<open>Browser storage, notes and search history (frontend, part 000)\<close>

text \<open>
  \<open>localStorage\<close> maps string keys to string values; \<open>getItem\<close> of a missing key is
  \<open>null\<close> (here \<open>None\<close>). Writes are taken to succeed (no storage quota).
\<close>

type_synonym storage = "jsstring \<rightharpoonup> jsstring"

definition note_key :: "jsstring \<Rightarrow> jsstring \<Rightarrow> jsstring" where
  "note_key gene species = js ''gap-filler-note-'' @ gene @ js ''-'' @ species"

text \<open>
  \<open>getGeneNotes\<close>: \<open>localStorage.getItem(key) || ''\<close>. A stored empty string is falsy
  and reads as \<open>''\<close> too.
\<close>

definition getGeneNotes :: "storage \<Rightarrow> jsstring \<Rightarrow> jsstring \<Rightarrow> jsstring" where
  "getGeneNotes ls gene species =
     (case ls (note_key gene species) of
        None \<Rightarrow> []
      | Some v \<Rightarrow> if v = [] then [] else v)"

text \<open>
  \<open>saveGeneNote\<close>: \<open>setItem\<close> when \<open>note.trim()\<close> is truthy (non-empty), \<open>removeItem\<close>
  otherwise. The save indicator it then touches is a DOM element and not part of the store.
\<close>

definition saveGeneNote :: "storage \<Rightarrow> jsstring \<Rightarrow> jsstring \<Rightarrow> jsstring \<Rightarrow> storage" where
  "saveGeneNote ls gene species note =
     (if js_trim note \<noteq> []
      then ls(note_key gene species \<mapsto> note)
      else ls(note_key gene species := None))"

definition MAX_HISTORY_ITEMS :: nat where
  "MAX_HISTORY_ITEMS = 10"

text \<open>
  One entry of \<open>state.searchHistory\<close>; the fields \<open>query\<close>, \<open>sourceSpecies\<close>,
  \<open>targetSpecies\<close>, \<open>resultsCount\<close>, \<open>timestamp\<close> and \<open>id\<close> of the source carry the
  prefix \<open>h_\<close>.
\<close>

record history_item =
  h_query :: jsstring
  h_sourceSpecies :: jsstring
  h_targetSpecies :: "jsstring list"
  h_resultsCount :: int
  h_timestamp :: jsstring
  h_id :: int

text \<open>
  The part of the page's state the history functions touch: \<open>state.searchHistory\<close> and
  \<open>localStorage\<close>.
\<close>

record history_state =
  searchHistory :: "history_item list"
  localStorage :: storage

definition history_key :: jsstring where
  "history_key = js ''gap-filler-history''"

text \<open>
  \<open>addToSearchHistory\<close>. The two clock reads (\<open>new Date().toISOString()\<close> and
  \<open>Date.now()\<close>) and the serialiser \<open>JSON.stringify\<close> are arguments. \<open>unshift\<close> puts the
  item in front; the list is cut to its first \<open>MAX_HISTORY_ITEMS\<close> entries when longer.
\<close>

definition addToSearchHistory ::
  "(history_item list \<Rightarrow> jsstring) \<Rightarrow> jsstring \<Rightarrow> int \<Rightarrow>
   jsstring \<Rightarrow> jsstring \<Rightarrow> jsstring list \<Rightarrow> int \<Rightarrow> history_state \<Rightarrow> history_state" where
  "addToSearchHistory stringify now_iso now_ms query sourceSpecies targetSpecies resultsCount st =
     (let historyItem = \<lparr>h_query = query, h_sourceSpecies = sourceSpecies,
                          h_targetSpecies = targetSpecies, h_resultsCount = resultsCount,
                          h_timestamp = now_iso, h_id = now_ms\<rparr>;
          unshifted = historyItem # searchHistory st;
          kept = (if length unshifted > MAX_HISTORY_ITEMS
                  then take MAX_HISTORY_ITEMS unshifted else unshifted)
      in st\<lparr>searchHistory := kept,
            localStorage := (localStorage st)(history_key \<mapsto> stringify kept)\<rparr>)"

definition clearSearchHistory :: "history_state \<Rightarrow> history_state" where
  "clearSearchHistory st =
     st\<lparr>searchHistory := [], localStorage := (localStorage st)(history_key := None)\<rparr>"

text \<open>The operations of the page that assign or mutate \<open>state.searchHistory\<close>.\<close>

datatype history_op =
  AddToSearchHistory jsstring int jsstring jsstring "jsstring list" int
| ClearSearchHistory

fun apply_history_op ::
  "(history_item list \<Rightarrow> jsstring) \<Rightarrow> history_op \<Rightarrow> history_state \<Rightarrow> history_state" where
  "apply_history_op stringify (AddToSearchHistory now_iso now_ms q s ts n) st =
     addToSearchHistory stringify now_iso now_ms q s ts n st"
| "apply_history_op stringify ClearSearchHistory st = clearSearchHistory st"

definition history_bounded :: "history_state \<Rightarrow> bool" where
  "history_bounded st \<longleftrightarrow> length (searchHistory st) \<le> MAX_HISTORY_ITEMS"

section \<open>JavaScript values, exceptions and requests\<close>

text \<open>
  A value that came out of \<open>JSON.parse\<close> or goes into \<open>JSON.stringify\<close>. Numbers are
  the rationals (every finite double is one). A property that is absent reads as
  \<open>undefined\<close>, which is \<open>None\<close> in a \<open>json option\<close>. An object is its list of
  properties; \<open>map_of\<close> reads a property.
\<close>

datatype json =
  JNull
| JBool bool
| JNum rat
| JStr jsstring
| JArr "json list"
| JObj "(jsstring \<times> json) list"

text \<open>A thrown value: the class of the error object and its \<open>message\<close>.\<close>

datatype error_class = Error | TypeError | SyntaxError

datatype js_error = Thrown error_class jsstring

fun message :: "js_error \<Rightarrow> jsstring" where
  "message (Thrown c m) = m"

text \<open>
  \<open>obj.name\<close>: reading a property of \<open>null\<close> throws a TypeError; an object gives the
  property or \<open>undefined\<close>; the other values have no property of the names read here.
\<close>

fun get_prop :: "json \<Rightarrow> jsstring \<Rightarrow> js_error + json option" where
  "get_prop JNull name = Inl (Thrown TypeError (js ''Cannot read properties of null''))"
| "get_prop (JObj props) name = Inr (map_of props name)"
| "get_prop v name = Inr None"

text \<open>Truthiness, and \<open>a || b\<close> for a possibly undefined \<open>a\<close>.\<close>

fun truthy :: "json option \<Rightarrow> bool" where
  "truthy None = False"
| "truthy (Some JNull) = False"
| "truthy (Some (JBool b)) = b"
| "truthy (Some (JNum n)) = (n \<noteq> 0)"
| "truthy (Some (JStr s)) = (s \<noteq> [])"
| "truthy (Some (JArr xs)) = True"
| "truthy (Some (JObj props)) = True"

definition js_or :: "json option \<Rightarrow> json \<Rightarrow> json" where
  "js_or a b = (if truthy a then the a else b)"

text \<open>
  A call of \<open>fetch\<close>: the URL, the method and the body as the object handed to
  \<open>JSON.stringify\<close> (the headers are the same constant everywhere). The world outside
  answers a request with a rejection (network error) or with a response, whose \<open>ok\<close> flag
  is read and whose \<open>json()\<close> gives a parsed body or rejects.
\<close>

record request =
  req_url :: jsstring
  req_method :: jsstring
  req_body :: "json option"

datatype 'a response = Response (ok: bool) (json_body: "js_error + 'a")

type_synonym 'a network = "request \<Rightarrow> js_error + 'a response"

definition API_BASE :: jsstring where
  "API_BASE = js ''http://127.0.0.1:5000/api''"

text \<open>What a handler does that is visible outside the page: an \<open>alert\<close> or a \<open>fetch\<close>.\<close>

datatype action = Alert jsstring | Fetch request

section \<open>Enrichment lookups (frontend, part 000)\<close>

definition go_terms_request :: "jsstring \<Rightarrow> jsstring \<Rightarrow> request" where
  "go_terms_request gene species =
     \<lparr>req_url = API_BASE @ js ''/go-terms'', req_method = js ''POST'',
      req_body = Some (JObj [(js ''gene'', JStr gene), (js ''species'', JStr species)])\<rparr>"

definition go_terms_unavailable :: json where
  "go_terms_unavailable =
     JObj [(js ''success'', JBool False), (js ''molecular_function'', JArr []),
           (js ''biological_process'', JArr []), (js ''cellular_component'', JArr []),
           (js ''pathways'', JArr [])]"

text \<open>
  The \<open>try\<close> block of \<open>fetchGOTerms\<close>: the awaited \<open>fetch\<close> may reject, a response that
  is not \<open>ok\<close> throws, the awaited \<open>response.json()\<close> may reject.
\<close>

definition fetchGOTerms_try :: "json network \<Rightarrow> jsstring \<Rightarrow> jsstring \<Rightarrow> js_error + json" where
  "fetchGOTerms_try net gene species =
     (case net (go_terms_request gene species) of
        Inl rejected \<Rightarrow> Inl rejected
      | Inr response \<Rightarrow>
          if \<not> ok response then Inl (Thrown Error (js ''Failed to fetch GO terms''))
          else json_body response)"

text \<open>\<open>fetchGOTerms\<close>: the \<open>catch\<close> turns whatever the block threw into the default object.\<close>

definition fetchGOTerms :: "json network \<Rightarrow> jsstring \<Rightarrow> jsstring \<Rightarrow> js_error + json" where
  "fetchGOTerms net gene species =
     (case fetchGOTerms_try net gene species of
        Inl error \<Rightarrow> Inr go_terms_unavailable
      | Inr data \<Rightarrow> Inr data)"

definition ortholog_request :: "jsstring \<Rightarrow> jsstring \<Rightarrow> jsstring \<Rightarrow> request" where
  "ortholog_request gene sourceSpecies targetSpecies =
     \<lparr>req_url = API_BASE @ js ''/ortholog'', req_method = js ''POST'',
      req_body = Some (JObj [(js ''gene'', JStr gene),
                             (js ''source_species'', JStr sourceSpecies),
                             (js ''target_species'', JStr targetSpecies)])\<rparr>"

definition ortholog_unavailable :: "js_error \<Rightarrow> json" where
  "ortholog_unavailable error =
     JObj [(js ''success'', JBool False), (js ''ortholog_found'', JBool False),
           (js ''error'', JStr (message error))]"

definition fetchOrthologInfo_try ::
  "json network \<Rightarrow> jsstring \<Rightarrow> jsstring \<Rightarrow> jsstring \<Rightarrow> js_error + json" where
  "fetchOrthologInfo_try net gene sourceSpecies targetSpecies =
     (case net (ortholog_request gene sourceSpecies targetSpecies) of
        Inl rejected \<Rightarrow> Inl rejected
      | Inr response \<Rightarrow>
          if \<not> ok response then Inl (Thrown Error (js ''Failed to fetch ortholog info''))
          else json_body response)"

definition fetchOrthologInfo ::
  "json network \<Rightarrow> jsstring \<Rightarrow> jsstring \<Rightarrow> jsstring \<Rightarrow> js_error + json" where
  "fetchOrthologInfo net gene sourceSpecies targetSpecies =
     (case fetchOrthologInfo_try net gene sourceSpecies targetSpecies of
        Inl error \<Rightarrow> Inr (ortholog_unavailable error)
      | Inr data \<Rightarrow> Inr data)"

text \<open>How a lookup can fail: the request is rejected, or answered with a status that is not ok.\<close>

definition lookup_failed :: "js_error + 'a response \<Rightarrow> bool" where
  "lookup_failed answer = (case answer of Inl rejected \<Rightarrow> True | Inr response \<Rightarrow> \<not> ok response)"

section \<open>Model presence check (desktop main process, part 001)\<close>

text \<open>
  \<open>s.startsWith(p)\<close> and \<open>s.includes(sub)\<close> on code units, and \<open>s.split(sep)[0]\<close> for
  a separator of one code unit: the part of \<open>s\<close> before the first separator, all of \<open>s\<close>
  when there is none.
\<close>

fun js_startsWith :: "jsstring \<Rightarrow> jsstring \<Rightarrow> bool" where
  "js_startsWith s [] = True"
| "js_startsWith [] (c # p) = False"
| "js_startsWith (d # s) (c # p) = (d = c \<and> js_startsWith s p)"

fun js_includes :: "jsstring \<Rightarrow> jsstring \<Rightarrow> bool" where
  "js_includes [] sub = (sub = [])"
| "js_includes (d # s) sub = (js_startsWith (d # s) sub \<or> js_includes s sub)"

definition split_first :: "code_unit \<Rightarrow> jsstring \<Rightarrow> jsstring" where
  "split_first sep s = takeWhile (\<lambda>c. c \<noteq> sep) s"

definition colon :: code_unit where
  "colon = 0x003A"

text \<open>
  The answer of Ollama's \<open>/api/tags\<close>: an object whose \<open>models\<close>, when present, is an
  array of objects with a string \<open>name\<close>.
\<close>

record ollama_model =
  model_name :: jsstring

record tags_payload =
  models :: "ollama_model list option"

definition OLLAMA_URL :: jsstring where
  "OLLAMA_URL = js ''http://localhost:11434''"

definition tags_request :: request where
  "tags_request = \<lparr>req_url = OLLAMA_URL @ js ''/api/tags'', req_method = js ''GET'', req_body = None\<rparr>"

text \<open>
  The \<open>try\<close> block of \<open>checkModel\<close>: \<open>Some b\<close> when it returns \<open>b\<close>, \<open>None\<close> when the
  response is not ok and control leaves the block without a return.
\<close>

definition checkModel_try :: "tags_payload network \<Rightarrow> jsstring \<Rightarrow> js_error + bool option" where
  "checkModel_try net modelName =
     (case net tags_request of
        Inl rejected \<Rightarrow> Inl rejected
      | Inr response \<Rightarrow>
          if ok response then
            (case json_body response of
               Inl rejected \<Rightarrow> Inl rejected
             | Inr data \<Rightarrow>
                 let installed = (case models data of None \<Rightarrow> [] | Some ms \<Rightarrow> ms)
                 in Inr (Some (list_ex (\<lambda>m. js_includes (model_name m) (split_first colon modelName))
                                 installed)))
          else Inr None)"

definition checkModel :: "tags_payload network \<Rightarrow> jsstring \<Rightarrow> bool" where
  "checkModel net modelName =
     (case checkModel_try net modelName of
        Inl error \<Rightarrow> False
      | Inr (Some found) \<Rightarrow> found
      | Inr None \<Rightarrow> False)"

section \<open>Search and export handlers (frontend, part 000)\<close>

text \<open>
  What the handlers read from the page: the value of \<open>#search-input\<close>, of
  \<open>#source-species\<close> and of \<open>#model-select\<close>, the checkboxes under \<open>#target-species\<close>
  and those named \<open>export-org\<close> (value and checked flag, in document order), the result of
  \<open>parseInt\<close> on the value of \<open>#max-articles\<close> (\<open>None\<close> is NaN), and
  \<open>state.analysisResults\<close>.
\<close>

record page =
  search_input :: jsstring
  source_species :: jsstring
  model_select :: jsstring
  target_species :: "(jsstring \<times> bool) list"
  export_org :: "(jsstring \<times> bool) list"
  max_articles :: "int option"
  analysisResults :: json

definition checked_values :: "(jsstring \<times> bool) list \<Rightarrow> jsstring list" where
  "checked_values boxes = map fst (filter snd boxes)"

text \<open>
  \<open>analyzeGaps\<close> hands its arguments to \<open>apiRequest('/analyze', ...)\<close>, which calls
  \<open>fetch\<close> on this request; the \<open>model\<close> property is \<open>model || null\<close>.
\<close>

definition analyzeGaps :: "jsstring \<Rightarrow> jsstring \<Rightarrow> jsstring list \<Rightarrow> int \<Rightarrow> jsstring \<Rightarrow> request" where
  "analyzeGaps query sourceSpecies targetSpecies maxArticles model =
     \<lparr>req_url = API_BASE @ js ''/analyze'', req_method = js ''POST'',
      req_body = Some (JObj
        [(js ''query'', JStr query),
         (js ''source_species'', JStr sourceSpecies),
         (js ''target_species'', JArr (map JStr targetSpecies)),
         (js ''max_articles'', JNum (of_int maxArticles)),
         (js ''model'', if model \<noteq> [] then JStr model else JNull)])\<rparr>"

text \<open>
  \<open>handleSearch\<close>, up to the point where it awaits the answer of \<open>analyzeGaps\<close>: the
  alerts and requests it has made by then. \<open>parseInt(...) || 20\<close> replaces NaN and 0 by 20.
  (What follows the answer renders it, records it in the history, or alerts the failure; it
  issues no further request.)
\<close>

definition handleSearch :: "page \<Rightarrow> action list" where
  "handleSearch pg =
     (let query = js_trim (search_input pg) in
      if query = [] then [Alert (js ''Please enter a search query'')]
      else
        let sourceSpecies = source_species pg;
            targetSpecies = checked_values (target_species pg);
            maxArticles = (case max_articles pg of None \<Rightarrow> 20 | Some n \<Rightarrow> if n = 0 then 20 else n);
            model = model_select pg
        in if length targetSpecies = 0
           then [Alert (js ''Please select at least one target species'')]
           else [Fetch (analyzeGaps query sourceSpecies targetSpecies maxArticles model)])"

definition is_analyze_request :: "request \<Rightarrow> bool" where
  "is_analyze_request r \<longleftrightarrow> req_url r = API_BASE @ js ''/analyze''"

text \<open>A property of the object a request carries as its body.\<close>

definition body_field :: "request \<Rightarrow> jsstring \<Rightarrow> json option" where
  "body_field r name = (case req_body r of Some (JObj props) \<Rightarrow> map_of props name | _ \<Rightarrow> None)"

text \<open>
  \<open>selectedOrgs.includes(gap.species)\<close>: only a string equal to one of the selected values
  is included. The callback of \<open>filter\<close> runs over the elements in order and throws at an
  element that is \<open>null\<close>.
\<close>

definition includes_value :: "jsstring list \<Rightarrow> json option \<Rightarrow> bool" where
  "includes_value selectedOrgs v = (case v of Some (JStr s) \<Rightarrow> s \<in> set selectedOrgs | _ \<Rightarrow> False)"

fun filter_by_species :: "jsstring list \<Rightarrow> json list \<Rightarrow> js_error + json list" where
  "filter_by_species selectedOrgs [] = Inr []"
| "filter_by_species selectedOrgs (gap # rest) =
     (case get_prop gap (js ''species'') of
        Inl thrown \<Rightarrow> Inl thrown
      | Inr species \<Rightarrow>
          (case filter_by_species selectedOrgs rest of
             Inl thrown \<Rightarrow> Inl thrown
           | Inr kept \<Rightarrow> Inr (if includes_value selectedOrgs species then gap # kept else kept)))"

text \<open>
  \<open>(state.analysisResults.gaps || []).filter(...)\<close>; a truthy \<open>gaps\<close> that is no array has
  no \<open>filter\<close> method.
\<close>

definition filteredGaps :: "jsstring list \<Rightarrow> json \<Rightarrow> js_error + json list" where
  "filteredGaps selectedOrgs results =
     (case get_prop results (js ''gaps'') of
        Inl thrown \<Rightarrow> Inl thrown
      | Inr gaps \<Rightarrow>
          (case js_or gaps (JArr []) of
             JArr elements \<Rightarrow> filter_by_species selectedOrgs elements
           | _ \<Rightarrow> Inl (Thrown TypeError (js ''filter is not a function''))))"

text \<open>The object given to \<open>JSON.stringify\<close> as the body of the export request.\<close>

definition export_body :: "page \<Rightarrow> jsstring list \<Rightarrow> json list \<Rightarrow> js_error + json" where
  "export_body pg selectedOrgs gaps =
     (case get_prop (analysisResults pg) (js ''query'') of
        Inl thrown \<Rightarrow> Inl thrown
      | Inr query \<Rightarrow>
     (case get_prop (analysisResults pg) (js ''genes'') of
        Inl thrown \<Rightarrow> Inl thrown
      | Inr genes \<Rightarrow>
     (case get_prop (analysisResults pg) (js ''summaries'') of
        Inl thrown \<Rightarrow> Inl thrown
      | Inr summaries \<Rightarrow>
          Inr (JObj
            [(js ''query'', js_or query (JStr (search_input pg))),
             (js ''source_species'', JStr (source_species pg)),
             (js ''target_species'', JArr (map JStr selectedOrgs)),
             (js ''gaps'', JArr gaps),
             (js ''genes'', js_or genes (JArr [])),
             (js ''summaries'', js_or summaries (JArr []))]))))"

text \<open>
  \<open>generatePDFWithSelection\<close>, up to its \<open>fetch\<close>: with nothing selected it alerts and
  returns; the filter runs before the \<open>try\<close>, so what it throws leaves the function
  (\<open>Inl\<close>); what building the body throws is caught and alerted.
\<close>

definition generatePDFWithSelection :: "page \<Rightarrow> js_error + action list" where
  "generatePDFWithSelection pg =
     (let selectedOrgs = checked_values (export_org pg) in
      if length selectedOrgs = 0
      then Inr [Alert (js ''Please select at least one organism to export.'')]
      else
        (case filteredGaps selectedOrgs (analysisResults pg) of
           Inl thrown \<Rightarrow> Inl thrown
         | Inr gaps \<Rightarrow>
             (case export_body pg selectedOrgs gaps of
                Inl error \<Rightarrow> Inr [Alert (js ''Failed to export PDF. Please try again.'')]
              | Inr body \<Rightarrow>
                  Inr [Fetch \<lparr>req_url = API_BASE @ js ''/export/pdf'', req_method = js ''POST'',
                              req_body = Some body\<rparr>])))"

section \<open>Gap levels\<close>

datatype GapLevel = complete_gap | severe_gap | moderate_gap | studied

text \<open>
  Modelled from the spec: \<open>classify\<close> of the Gap Classifier, which is part of the backend
  and not among the sources. It follows the threshold table of section 4.4 of the spec row by
  row (0, 1 to 3, 4 to 10, above 10) and never reads the source count. The table has no row
  for a negative count: \<open>None\<close>.
\<close>

definition classify :: "int \<Rightarrow> int \<Rightarrow> GapLevel option" where
  "classify source_pubs target_pubs =
     (if target_pubs = 0 then Some complete_gap
      else if 1 \<le> target_pubs \<and> target_pubs \<le> 3 then Some severe_gap
      else if 4 \<le> target_pubs \<and> target_pubs \<le> 10 then Some moderate_gap
      else if target_pubs > 10 then Some studied
      else None)"

text \<open>The value of \<open>gap_level\<close> in the payload of \<open>/analyze\<close> for each level.\<close>

fun gap_level_name :: "GapLevel \<Rightarrow> jsstring" where
  "gap_level_name complete_gap = js ''complete_gap''"
| "gap_level_name severe_gap = js ''severe_gap''"
| "gap_level_name moderate_gap = js ''moderate_gap''"
| "gap_level_name studied = js ''studied''"

text \<open>
  \<open>formatGapLevel\<close> (frontend, part 000). Each label starts with a coloured circle, an
  emoji outside the basic plane and so two code units: U+1F534, U+1F7E0, U+1F7E1, U+1F7E2.
\<close>

definition formatGapLevel :: "jsstring \<Rightarrow> jsstring" where
  "formatGapLevel level =
     (if level = js ''complete_gap'' then [0xD83D, 0xDD34] @ js '' No publications''
      else if level = js ''severe_gap'' then [0xD83D, 0xDFE0] @ js '' 1-3 publications''
      else if level = js ''moderate_gap'' then [0xD83D, 0xDFE1] @ js '' 4-10 publications''
      else if level = js ''studied'' then [0xD83D, 0xDFE2] @ js '' Well studied''
      else level)"

section \<open>Priority score\<close>

text \<open>
  Modelled from the spec: the priority score of the Gap Classifier and Scorer, which the
  backend computes and which is not among the sources. Section 4.4 of the spec gives the
  formula \<open>source_publications_log_weighted * mention_count_weight * (1 / (target_publications + 1))\<close>,
  clipped to a fixed display range, and leaves the constants open. Here the log weight is
  \<open>ln (1 + source_publications)\<close>, the mention weight is the mention count, the display
  range from \<open>lo\<close> to \<open>hi\<close> is a parameter, and numbers are real numbers.
\<close>

definition priority_score :: "real \<Rightarrow> real \<Rightarrow> nat \<Rightarrow> nat \<Rightarrow> nat \<Rightarrow> real" where
  "priority_score lo hi source_publications mention_count target_publications =
     min hi (max lo
       (ln (1 + real source_publications) * real mention_count
          * (1 / (real target_publications + 1))))"

text \<open>
  Modelled from the spec: the order of the ranked gaps, higher score first and, in the
  words of section 4.4, ties broken by gene name. Gene names compare as strings do in the
  lexicographic order of their code units.
\<close>

definition ranks_before :: "jsstring \<times> real \<Rightarrow> jsstring \<times> real \<Rightarrow> bool" where
  "ranks_before a b \<longleftrightarrow> snd a > snd b \<or> (snd a = snd b \<and> fst a < fst b)"

section \<open>Example inputs\<close>

text \<open>
  A payload of \<open>/analyze\<close> as \<open>showResults\<close> stores it in \<open>state.analysisResults\<close>
  and reads it (\<open>articles_analyzed\<close>, \<open>genes_found\<close>, \<open>gene_summaries\<close>, \<open>gaps\<close>,
  \<open>statistics\<close>): two genes found for a drought query, gaps reported for wheat, none for
  rice.
\<close>

definition wheat_summary :: json where
  "wheat_summary =
     JObj [(js ''species'', JStr (js ''Triticum aestivum'')), (js ''common_name'', JStr (js ''Wheat'')),
           (js ''gap_count'', JNum 2), (js ''complete_gaps'', JNum 1), (js ''severe_gaps'', JNum 1),
           (js ''missing_genes'', JArr
              [JObj [(js ''gene'', JStr (js ''DREB2A'')), (js ''gap_level'', JStr (js ''complete_gap'')),
                     (js ''source_publications'', JNum 45), (js ''target_publications'', JNum 0)],
               JObj [(js ''gene'', JStr (js ''CBF1'')), (js ''gap_level'', JStr (js ''severe_gap'')),
                     (js ''source_publications'', JNum 8), (js ''target_publications'', JNum 2)]])]"

definition rice_summary :: json where
  "rice_summary =
     JObj [(js ''species'', JStr (js ''Oryza sativa'')), (js ''common_name'', JStr (js ''Rice'')),
           (js ''gap_count'', JNum 0), (js ''complete_gaps'', JNum 0), (js ''severe_gaps'', JNum 0),
           (js ''missing_genes'', JArr [])]"

definition payload_genes_found :: json where
  "payload_genes_found =
     JArr [JObj [(js ''name'', JStr (js ''DREB2A'')), (js ''mentions'', JNum 12)],
           JObj [(js ''name'', JStr (js ''CBF1'')), (js ''mentions'', JNum 4)]]"

definition payload_gene_summaries :: json where
  "payload_gene_summaries =
     JObj [(js ''DREB2A'', JStr (js ''Drought-responsive transcription factor.''))]"

definition analyze_payload :: json where
  "analyze_payload =
     JObj [(js ''articles_analyzed'', JNum 20),
           (js ''genes_found'', payload_genes_found),
           (js ''gene_summaries'', payload_gene_summaries),
           (js ''gaps'', JArr [wheat_summary, rice_summary]),
           (js ''statistics'', JObj [(js ''total_gaps'', JNum 2), (js ''species_with_gaps'', JNum 1)])]"

text \<open>
  The page after that analysis, with the export dialog open and only wheat left checked.
\<close>

definition page_export :: page where
  "page_export =
     \<lparr>search_input = js ''drought stress signaling'', source_species = js ''Arabidopsis thaliana'',
      model_select = js ''llama3:8b'',
      target_species = [(js ''Triticum aestivum'', True), (js ''Oryza sativa'', True)],
      export_org = [(js ''Triticum aestivum'', True), (js ''Oryza sativa'', False)],
      max_articles = Some 20, analysisResults = analyze_payload\<rparr>"

text \<open>
  Pages before a search: a query of blanks only, no target checked, a valid form with a
  model selected, and a valid form whose model list is empty (its only option has the value
  \<open>''\<close>).
\<close>

definition page_blank_query :: page where
  "page_blank_query =
     \<lparr>search_input = [0x0020, 0x0009, 0x0020], source_species = js ''Arabidopsis thaliana'',
      model_select = js ''llama3:8b'', target_species = [(js ''Zea mays'', True)], export_org = [],
      max_articles = Some 20, analysisResults = JNull\<rparr>"

definition page_no_target :: page where
  "page_no_target =
     \<lparr>search_input = js ''drought stress'', source_species = js ''Arabidopsis thaliana'',
      model_select = js ''llama3:8b'',
      target_species = [(js ''Zea mays'', False), (js ''Oryza sativa'', False)], export_org = [],
      max_articles = Some 20, analysisResults = JNull\<rparr>"

definition page_with_model :: page where
  "page_with_model =
     \<lparr>search_input = js ''drought stress'', source_species = js ''Arabidopsis thaliana'',
      model_select = js ''llama3:8b'',
      target_species = [(js ''Triticum aestivum'', True), (js ''Oryza sativa'', True),
                        (js ''Zea mays'', False)],
      export_org = [], max_articles = None, analysisResults = JNull\<rparr>"

definition page_no_model :: page where
  "page_no_model =
     \<lparr>search_input = js ''drought stress'', source_species = js ''Arabidopsis thaliana'',
      model_select = [], target_species = [(js ''Zea mays'', True)], export_org = [],
      max_articles = Some 20, analysisResults = JNull\<rparr>"

text \<open>The property of the body of the single request an export made, if it made one.\<close>

definition posted_field :: "js_error + action list \<Rightarrow> jsstring \<Rightarrow> json option" where
  "posted_field outcome name =
     (case outcome of Inr [Fetch r] \<Rightarrow> body_field r name | _ \<Rightarrow> None)"

text \<open>
  Three worlds: the server cannot be reached, it answers every request with an error status,
  and an Ollama that has the 1.5b variant of \<open>deepseek-r1\<close> installed.
\<close>

definition net_unreachable :: "'a network" where
  "net_unreachable r = Inl (Thrown TypeError (js ''Failed to fetch''))"

definition net_server_error :: "json network" where
  "net_server_error r = Inr (Response False (Inr (JObj [(js ''error'', JStr (js ''Internal error''))])))"

definition net_deepseek_small :: "tags_payload network" where
  "net_deepseek_small r =
     Inr (Response True (Inr \<lparr>models = Some [\<lparr>model_name = js ''deepseek-r1:1.5b''\<rparr>]\<rparr>))"

definition DEFAULT_MODEL :: jsstring where
  "DEFAULT_MODEL = js ''deepseek-r1:8b-llama-distill-q4_K_M''"

text \<open>
  The label shown for a target count: the level \<open>classify\<close> gives, sent under its name,
  rendered by \<open>formatGapLevel\<close>.
\<close>

definition gap_label :: "int \<Rightarrow> int \<Rightarrow> jsstring option" where
  "gap_label source_pubs target_pubs =
     map_option (\<lambda>level. formatGapLevel (gap_level_name level)) (classify source_pubs target_pubs)"

section \<open>Properties of the note store\<close>

lemma js_trim_empty_iff: "js_trim s = [] \<longleftrightarrow> (\<forall>c \<in> set s. js_whitespace c)"
proof
  assume empty: "js_trim s = []"
  show "\<forall>c \<in> set s. js_whitespace c"
  proof (rule ccontr)
    assume "\<not> (\<forall>c \<in> set s. js_whitespace c)"
    then have nonempty: "dropWhile js_whitespace s \<noteq> []"
      by simp
    then have "\<not> js_whitespace (hd (dropWhile js_whitespace s))"
      by (rule hd_dropWhile)
    moreover from nonempty have "hd (dropWhile js_whitespace s) \<in> set (dropWhile js_whitespace s)"
      by simp
    ultimately have "dropWhile js_whitespace (rev (dropWhile js_whitespace s)) \<noteq> []"
      by auto
    with empty show False
      by (simp add: js_trim_def)
  qed
next
  assume "\<forall>c \<in> set s. js_whitespace c"
  then show "js_trim s = []"
    by (auto simp: js_trim_def dest: set_dropWhileD)
qed

text \<open>
  Claim C9. After \<open>saveGeneNote(gene, species, note)\<close>, \<open>getGeneNotes(gene, species)\<close>
  returns \<open>note\<close> when \<open>note\<close> has a code unit that is not whitespace; when \<open>note\<close> is
  empty or whitespace only it returns the empty string and the entry is gone from the store.
\<close>

theorem saveGeneNote_getGeneNotes:
  "getGeneNotes (saveGeneNote ls gene species note) gene species =
     (if \<exists>c \<in> set note. \<not> js_whitespace c then note else [])
   \<and> ((\<forall>c \<in> set note. js_whitespace c) \<longrightarrow>
        saveGeneNote ls gene species note (note_key gene species) = None)"
proof (cases "\<forall>c \<in> set note. js_whitespace c")
  case True
  then have "js_trim note = []"
    by (simp add: js_trim_empty_iff)
  with True show ?thesis
    by (simp add: getGeneNotes_def saveGeneNote_def)
next
  case False
  then have "js_trim note \<noteq> []"
    by (simp add: js_trim_empty_iff)
  with False show ?thesis
    by (auto simp: getGeneNotes_def saveGeneNote_def)
qed

theorem saveGeneNote_getGeneNotes_witness:
  "getGeneNotes (saveGeneNote Map.empty (js ''DREB2A'') (js ''Zea mays'') (js '' check QTL ''))
     (js ''DREB2A'') (js ''Zea mays'') = js '' check QTL ''
   \<and> getGeneNotes (saveGeneNote [note_key (js ''DREB2A'') (js ''Zea mays'') \<mapsto> js ''old'']
        (js ''DREB2A'') (js ''Zea mays'') [0x0020, 0x0009, 0x00A0])
     (js ''DREB2A'') (js ''Zea mays'') = []
   \<and> saveGeneNote [note_key (js ''DREB2A'') (js ''Zea mays'') \<mapsto> js ''old'']
        (js ''DREB2A'') (js ''Zea mays'') [0x0020, 0x0009, 0x00A0]
        (note_key (js ''DREB2A'') (js ''Zea mays'')) = None"
proof -
  have blank: "\<forall>c \<in> set [0x0020, 0x0009, 0x00A0 :: code_unit]. js_whitespace c"
    by (simp add: js_whitespace_def)
  have written: "\<exists>c \<in> set (js '' check QTL ''). \<not> js_whitespace c"
    by (simp add: js_def js_whitespace_def)
  show ?thesis
    using blank written
      saveGeneNote_getGeneNotes [of Map.empty "js ''DREB2A''" "js ''Zea mays''" "js '' check QTL ''"]
      saveGeneNote_getGeneNotes [of "[note_key (js ''DREB2A'') (js ''Zea mays'') \<mapsto> js ''old'']"
        "js ''DREB2A''" "js ''Zea mays''" "[0x0020, 0x0009, 0x00A0]"]
    by simp
qed

section \<open>Properties of the search history\<close>

lemma addToSearchHistory_history:
  "searchHistory (addToSearchHistory stringify now_iso now_ms q s ts n st) =
     take MAX_HISTORY_ITEMS
       (\<lparr>h_query = q, h_sourceSpecies = s, h_targetSpecies = ts, h_resultsCount = n,
         h_timestamp = now_iso, h_id = now_ms\<rparr> # searchHistory st)"
  by (simp add: addToSearchHistory_def Let_def)

lemma apply_history_op_bounded: "history_bounded (apply_history_op stringify op st)"
proof (cases op)
  case (AddToSearchHistory now_iso now_ms q s ts n)
  then show ?thesis
    by (simp add: history_bounded_def addToSearchHistory_history)
next
  case ClearSearchHistory
  then show ?thesis
    by (simp add: history_bounded_def clearSearchHistory_def)
qed

text \<open>
  Claim C8. After every call of \<open>addToSearchHistory\<close> the history has at most
  \<open>MAX_HISTORY_ITEMS\<close> = 10 entries and starts with the item just added, whatever the history
  was before; the bound also holds after \<open>clearSearchHistory\<close>, hence after any sequence of
  the operations that change the history.
\<close>

theorem addToSearchHistory_bounded_newest_first:
  "MAX_HISTORY_ITEMS = 10
   \<and> length (searchHistory (addToSearchHistory stringify now_iso now_ms q s ts n st)) \<le> 10
   \<and> (\<exists>older. searchHistory (addToSearchHistory stringify now_iso now_ms q s ts n st) =
        \<lparr>h_query = q, h_sourceSpecies = s, h_targetSpecies = ts, h_resultsCount = n,
         h_timestamp = now_iso, h_id = now_ms\<rparr> # older
        \<and> older = take 9 (searchHistory st))
   \<and> history_bounded (clearSearchHistory st)
   \<and> history_bounded (fold (apply_history_op stringify) (ops @ [op]) st)"
proof -
  have "history_bounded (fold (apply_history_op stringify) (ops @ [op]) st)"
    by (simp add: apply_history_op_bounded)
  moreover have "history_bounded (clearSearchHistory st)"
    by (simp add: history_bounded_def clearSearchHistory_def)
  moreover have "take MAX_HISTORY_ITEMS (x # searchHistory st) = x # take 9 (searchHistory st)" for x
    by (simp add: MAX_HISTORY_ITEMS_def take_Cons')
  ultimately show ?thesis
    by (simp add: addToSearchHistory_history MAX_HISTORY_ITEMS_def)
qed

section \<open>Properties of the enrichment lookups\<close>

lemma go_terms_unavailable_fields:
  "get_prop go_terms_unavailable (js ''success'') = Inr (Some (JBool False))
   \<and> get_prop go_terms_unavailable (js ''molecular_function'') = Inr (Some (JArr []))
   \<and> get_prop go_terms_unavailable (js ''biological_process'') = Inr (Some (JArr []))
   \<and> get_prop go_terms_unavailable (js ''cellular_component'') = Inr (Some (JArr []))
   \<and> get_prop go_terms_unavailable (js ''pathways'') = Inr (Some (JArr []))"
  by (simp add: go_terms_unavailable_def js_def)

lemma ortholog_unavailable_fields:
  "get_prop (ortholog_unavailable error) (js ''success'') = Inr (Some (JBool False))
   \<and> get_prop (ortholog_unavailable error) (js ''ortholog_found'') = Inr (Some (JBool False))
   \<and> get_prop (ortholog_unavailable error) (js ''error'') = Inr (Some (JStr (message error)))"
  by (simp add: ortholog_unavailable_def js_def)

lemma fetchGOTerms_returns: "\<exists>data. fetchGOTerms net gene species = Inr data"
  by (simp add: fetchGOTerms_def split: sum.split)

lemma fetchGOTerms_failed:
  "lookup_failed (net (go_terms_request gene species)) \<Longrightarrow>
   fetchGOTerms net gene species = Inr go_terms_unavailable"
  by (auto simp: lookup_failed_def fetchGOTerms_def fetchGOTerms_try_def split: sum.splits)

lemma fetchOrthologInfo_returns: "\<exists>data. fetchOrthologInfo net gene s t = Inr data"
  by (simp add: fetchOrthologInfo_def split: sum.split)

lemma fetchOrthologInfo_failed:
  "lookup_failed (net (ortholog_request gene s t)) \<Longrightarrow>
   \<exists>error. fetchOrthologInfo net gene s t = Inr (ortholog_unavailable error)"
  by (auto simp: lookup_failed_def fetchOrthologInfo_def fetchOrthologInfo_try_def
      split: sum.splits)

text \<open>
  Claim C4. For every gene and species, and whatever the world answers, \<open>fetchGOTerms\<close> and
  \<open>fetchOrthologInfo\<close> return a value and throw nothing. When the request is rejected or
  answered with a status that is not ok, the value is the default object: \<open>success\<close> false
  with empty lists for the GO terms, \<open>success\<close> false and \<open>ortholog_found\<close> false with the
  error's message for the ortholog.
\<close>

theorem enrichment_lookups_never_throw:
  "(\<exists>data. fetchGOTerms net gene species = Inr data)
   \<and> (lookup_failed (net (go_terms_request gene species)) \<longrightarrow>
        fetchGOTerms net gene species = Inr go_terms_unavailable)
   \<and> (\<exists>data. fetchOrthologInfo net gene species target = Inr data)
   \<and> (lookup_failed (net (ortholog_request gene species target)) \<longrightarrow>
        (\<exists>error. fetchOrthologInfo net gene species target = Inr (ortholog_unavailable error)))
   \<and> get_prop go_terms_unavailable (js ''success'') = Inr (Some (JBool False))
   \<and> get_prop go_terms_unavailable (js ''molecular_function'') = Inr (Some (JArr []))
   \<and> get_prop go_terms_unavailable (js ''biological_process'') = Inr (Some (JArr []))
   \<and> get_prop go_terms_unavailable (js ''cellular_component'') = Inr (Some (JArr []))
   \<and> get_prop go_terms_unavailable (js ''pathways'') = Inr (Some (JArr []))
   \<and> get_prop (ortholog_unavailable thrown) (js ''success'') = Inr (Some (JBool False))
   \<and> get_prop (ortholog_unavailable thrown) (js ''ortholog_found'') = Inr (Some (JBool False))"
  using fetchGOTerms_returns [of net gene species] fetchGOTerms_failed [of net gene species]
    fetchOrthologInfo_returns [of net gene species target]
    fetchOrthologInfo_failed [of net gene species target]
    go_terms_unavailable_fields ortholog_unavailable_fields [of thrown]
  by blast

theorem enrichment_lookups_never_throw_witness:
  "lookup_failed ((net_unreachable :: json network)
        (go_terms_request (js ''DREB2A'') (js ''Arabidopsis thaliana'')))
   \<and> fetchGOTerms net_unreachable (js ''DREB2A'') (js ''Arabidopsis thaliana'')
       = Inr go_terms_unavailable
   \<and> lookup_failed (net_server_error
        (ortholog_request (js ''DREB2A'') (js ''Arabidopsis thaliana'') (js ''Zea mays'')))
   \<and> fetchOrthologInfo net_server_error (js ''DREB2A'') (js ''Arabidopsis thaliana'') (js ''Zea mays'')
       = Inr (ortholog_unavailable (Thrown Error (js ''Failed to fetch ortholog info'')))"
proof -
  have unreachable:
    "lookup_failed ((net_unreachable :: json network)
       (go_terms_request (js ''DREB2A'') (js ''Arabidopsis thaliana'')))"
    by (simp add: lookup_failed_def net_unreachable_def)
  have server_error:
    "lookup_failed (net_server_error
       (ortholog_request (js ''DREB2A'') (js ''Arabidopsis thaliana'') (js ''Zea mays'')))"
    by (simp add: lookup_failed_def net_server_error_def)
  have ortholog:
    "fetchOrthologInfo net_server_error (js ''DREB2A'') (js ''Arabidopsis thaliana'') (js ''Zea mays'')
       = Inr (ortholog_unavailable (Thrown Error (js ''Failed to fetch ortholog info'')))"
    by (simp add: fetchOrthologInfo_def fetchOrthologInfo_try_def net_server_error_def)
  show ?thesis
    using unreachable server_error ortholog
      enrichment_lookups_never_throw [of net_unreachable "js ''DREB2A''" "js ''Arabidopsis thaliana''"
        "js ''Zea mays''" "Thrown Error (js ''Failed to fetch ortholog info'')"]
    by blast
qed

section \<open>Properties of the model presence check\<close>

lemma js_startsWith_iff: "js_startsWith s p \<longleftrightarrow> (\<exists>q. s = p @ q)"
  by (induction s p rule: js_startsWith.induct) auto

lemma js_includes_iff: "js_includes s sub \<longleftrightarrow> (\<exists>p q. s = p @ sub @ q)"
proof (induction s)
  case Nil
  then show ?case by simp
next
  case (Cons d s)
  show ?case
  proof
    assume "js_includes (d # s) sub"
    then consider "js_startsWith (d # s) sub" | "js_includes s sub" by auto
    then show "\<exists>p q. d # s = p @ sub @ q"
    proof cases
      case 1
      then obtain q where "d # s = sub @ q" by (auto simp: js_startsWith_iff)
      then have "d # s = [] @ sub @ q" by simp
      then show ?thesis by blast
    next
      case 2
      with Cons.IH obtain p q where "s = p @ sub @ q" by blast
      then have "d # s = (d # p) @ sub @ q" by simp
      then show ?thesis by blast
    qed
  next
    assume "\<exists>p q. d # s = p @ sub @ q"
    then obtain p q where pq: "d # s = p @ sub @ q" by blast
    show "js_includes (d # s) sub"
    proof (cases p)
      case Nil
      with pq have "js_startsWith (d # s) sub" by (auto simp: js_startsWith_iff)
      then show ?thesis by simp
    next
      case (Cons e p')
      with pq have "s = p' @ sub @ q" by simp
      with Cons.IH have "js_includes s sub" by blast
      then show ?thesis by simp
    qed
  qed
qed

lemma split_first_shape:
  "sep \<notin> set (split_first sep s)
   \<and> (s = split_first sep s \<or> (\<exists>rest. s = split_first sep s @ sep # rest))"
  by (induction s) (auto simp: split_first_def)

lemma checkModel_true_iff:
  "checkModel net modelName \<longleftrightarrow>
     (\<exists>response data. net tags_request = Inr response \<and> ok response
        \<and> json_body response = Inr data
        \<and> (\<exists>m \<in> set (case models data of None \<Rightarrow> [] | Some ms \<Rightarrow> ms).
              \<exists>p q. model_name m = p @ split_first colon modelName @ q))"
  by (auto simp: checkModel_def checkModel_try_def list_ex_iff js_includes_iff Let_def
      split: sum.splits option.splits)

lemma checkModel_failure:
  "lookup_failed (net tags_request) \<Longrightarrow> \<not> checkModel net modelName"
  by (auto simp: lookup_failed_def checkModel_def checkModel_try_def
      split: sum.splits option.splits)

text \<open>
  Claim C10. \<open>checkModel(modelName)\<close> is true exactly when the tags endpoint answers ok
  with a body that parses and some installed model's name contains, as a substring, the part
  of \<open>modelName\<close> before its first colon (all of it when it has none); a rejected request or
  a status that is not ok gives false.
\<close>

theorem checkModel_ignores_tag:
  "(checkModel net modelName \<longleftrightarrow>
     (\<exists>response data. net tags_request = Inr response \<and> ok response
        \<and> json_body response = Inr data
        \<and> (\<exists>m \<in> set (case models data of None \<Rightarrow> [] | Some ms \<Rightarrow> ms).
              \<exists>p q. model_name m = p @ split_first colon modelName @ q)))
   \<and> (lookup_failed (net tags_request) \<longrightarrow> \<not> checkModel net modelName)
   \<and> colon \<notin> set (split_first colon modelName)
   \<and> (modelName = split_first colon modelName
        \<or> (\<exists>tag. modelName = split_first colon modelName @ colon # tag))"
  using checkModel_true_iff [of net modelName] checkModel_failure [of net modelName]
    split_first_shape [of colon modelName]
  by blast

theorem checkModel_ignores_tag_witness:
  "split_first colon DEFAULT_MODEL = js ''deepseek-r1''
   \<and> checkModel net_deepseek_small DEFAULT_MODEL
   \<and> lookup_failed (net_unreachable tags_request :: js_error + tags_payload response)
   \<and> \<not> checkModel net_unreachable DEFAULT_MODEL"
proof -
  have base: "split_first colon DEFAULT_MODEL = js ''deepseek-r1''"
    by (simp add: split_first_def colon_def DEFAULT_MODEL_def js_def)
  have "js ''deepseek-r1:1.5b'' = [] @ js ''deepseek-r1'' @ js '':1.5b''"
    by (simp add: js_def)
  then have installed: "\<exists>response data. net_deepseek_small tags_request = Inr response \<and> ok response
        \<and> json_body response = Inr data
        \<and> (\<exists>m \<in> set (case models data of None \<Rightarrow> [] | Some ms \<Rightarrow> ms).
              \<exists>p q. model_name m = p @ split_first colon DEFAULT_MODEL @ q)"
    unfolding base net_deepseek_small_def by fastforce
  have failed: "lookup_failed (net_unreachable tags_request :: js_error + tags_payload response)"
    by (simp add: lookup_failed_def net_unreachable_def)
  show ?thesis
    using base installed failed
      checkModel_ignores_tag [of net_deepseek_small DEFAULT_MODEL]
      checkModel_ignores_tag [of net_unreachable DEFAULT_MODEL]
    by blast
qed

section \<open>Properties of the search handler\<close>

lemma handleSearch_blank_query:
  "js_trim (search_input pg) = [] \<Longrightarrow>
   handleSearch pg = [Alert (js ''Please enter a search query'')]"
  by (simp add: handleSearch_def)

lemma handleSearch_no_target:
  "js_trim (search_input pg) \<noteq> [] \<Longrightarrow> checked_values (target_species pg) = [] \<Longrightarrow>
   handleSearch pg = [Alert (js ''Please select at least one target species'')]"
  by (simp add: handleSearch_def Let_def)

lemma handleSearch_valid:
  "js_trim (search_input pg) \<noteq> [] \<Longrightarrow> checked_values (target_species pg) \<noteq> [] \<Longrightarrow>
   handleSearch pg =
     [Fetch (analyzeGaps (js_trim (search_input pg)) (source_species pg)
        (checked_values (target_species pg))
        (case max_articles pg of None \<Rightarrow> 20 | Some n \<Rightarrow> if n = 0 then 20 else n)
        (model_select pg))]"
  by (simp add: handleSearch_def Let_def)

lemma analyzeGaps_model:
  "body_field (analyzeGaps q s ts n m) (js ''model'') = Some (if m \<noteq> [] then JStr m else JNull)"
  by (simp add: analyzeGaps_def body_field_def js_def)

lemma analyzeGaps_is_analyze: "is_analyze_request (analyzeGaps q s ts n m)"
  by (simp add: analyzeGaps_def is_analyze_request_def)

lemma trim_drought_stress: "js_trim (js ''drought stress'') = js ''drought stress''"
  by (simp add: js_def js_trim_def js_whitespace_def)

lemma drought_stress_nonempty: "js ''drought stress'' \<noteq> []"
  by (simp add: js_def)

text \<open>
  Claim C2. Whenever the trimmed query is empty or no target species is checked,
  \<open>handleSearch\<close> shows one of its two error messages and returns: it makes no request,
  to \<open>/analyze\<close> or anywhere else.
\<close>

theorem handleSearch_rejects_before_request:
  "js_trim (search_input pg) = [] \<or> checked_values (target_species pg) = [] \<Longrightarrow>
   (handleSearch pg = [Alert (js ''Please enter a search query'')]
      \<or> handleSearch pg = [Alert (js ''Please select at least one target species'')])
   \<and> (\<forall>r. Fetch r \<notin> set (handleSearch pg))"
  using handleSearch_blank_query [of pg] handleSearch_no_target [of pg]
  by (cases "js_trim (search_input pg) = []") auto

theorem handleSearch_rejects_before_request_witness:
  "js_trim (search_input page_blank_query) = []
   \<and> handleSearch page_blank_query = [Alert (js ''Please enter a search query'')]
   \<and> js_trim (search_input page_no_target) = js ''drought stress''
   \<and> checked_values (target_species page_no_target) = []
   \<and> handleSearch page_no_target = [Alert (js ''Please select at least one target species'')]"
proof -
  have blank: "js_trim (search_input page_blank_query) = []"
    by (simp add: page_blank_query_def js_trim_def js_whitespace_def)
  have query: "js_trim (search_input page_no_target) = js ''drought stress''"
    by (simp add: page_no_target_def trim_drought_stress)
  have none_checked: "checked_values (target_species page_no_target) = []"
    by (simp add: page_no_target_def checked_values_def)
  have first_alert: "handleSearch page_blank_query = [Alert (js ''Please enter a search query'')]"
    using blank by (rule handleSearch_blank_query)
  have second_alert:
    "handleSearch page_no_target = [Alert (js ''Please select at least one target species'')]"
    using query none_checked drought_stress_nonempty handleSearch_no_target [of page_no_target]
    by simp
  show ?thesis
    using blank query none_checked first_alert second_alert
      handleSearch_rejects_before_request [of page_blank_query]
      handleSearch_rejects_before_request [of page_no_target]
    by simp
qed

text \<open>
  Claim C7, as the code has it. Every request \<open>handleSearch\<close> makes goes to \<open>/analyze\<close>
  and its body has a \<open>model\<close> property: the value of the model select when that value is
  not empty, and \<open>null\<close> when it is empty.
\<close>

theorem handleSearch_request_model:
  "Fetch r \<in> set (handleSearch pg) \<Longrightarrow>
   is_analyze_request r
   \<and> body_field r (js ''model'') =
       Some (if model_select pg \<noteq> [] then JStr (model_select pg) else JNull)"
proof -
  assume fetch: "Fetch r \<in> set (handleSearch pg)"
  have q: "js_trim (search_input pg) \<noteq> []"
    using fetch handleSearch_blank_query [of pg] by auto
  have t: "checked_values (target_species pg) \<noteq> []"
    using fetch q handleSearch_no_target [of pg] by auto
  from fetch handleSearch_valid [OF q t]
  have "r = analyzeGaps (js_trim (search_input pg)) (source_species pg)
        (checked_values (target_species pg))
        (case max_articles pg of None \<Rightarrow> 20 | Some n \<Rightarrow> if n = 0 then 20 else n)
        (model_select pg)"
    by simp
  then show ?thesis
    by (simp only: analyzeGaps_model analyzeGaps_is_analyze simp_thms)
qed

theorem handleSearch_request_model_witness:
  "Fetch (analyzeGaps (js ''drought stress'') (js ''Arabidopsis thaliana'')
       [js ''Triticum aestivum'', js ''Oryza sativa''] 20 (js ''llama3:8b''))
     \<in> set (handleSearch page_with_model)
   \<and> body_field (analyzeGaps (js ''drought stress'') (js ''Arabidopsis thaliana'')
       [js ''Triticum aestivum'', js ''Oryza sativa''] 20 (js ''llama3:8b'')) (js ''model'')
     = Some (JStr (js ''llama3:8b''))"
proof -
  have issued: "Fetch (analyzeGaps (js ''drought stress'') (js ''Arabidopsis thaliana'')
       [js ''Triticum aestivum'', js ''Oryza sativa''] 20 (js ''llama3:8b''))
     \<in> set (handleSearch page_with_model)"
    by (simp add: handleSearch_def page_with_model_def checked_values_def trim_drought_stress
        drought_stress_nonempty Let_def)
  have "js ''llama3:8b'' \<noteq> []"
    by (simp add: js_def)
  then have "model_select page_with_model \<noteq> []"
    "model_select page_with_model = js ''llama3:8b''"
    by (simp_all add: page_with_model_def)
  then show ?thesis
    using issued handleSearch_request_model [OF issued]
    by simp
qed

text \<open>
  Claim C7 as stated fails where the model select has the empty value, as it has while no
  model is listed: the form is valid, the request goes out, and its \<open>model\<close> is \<open>null\<close>,
  not a model identifier.
\<close>

theorem handleSearch_request_model_counterexample:
  "handleSearch page_no_model =
     [Fetch (analyzeGaps (js ''drought stress'') (js ''Arabidopsis thaliana'') [js ''Zea mays''] 20 [])]
   \<and> body_field (analyzeGaps (js ''drought stress'') (js ''Arabidopsis thaliana'') [js ''Zea mays''] 20 [])
        (js ''model'') = Some JNull
   \<and> body_field (analyzeGaps (js ''drought stress'') (js ''Arabidopsis thaliana'') [js ''Zea mays''] 20 [])
        (js ''model'') \<noteq> Some (JStr (model_select page_no_model))"
  by (simp add: handleSearch_def page_no_model_def checked_values_def trim_drought_stress
      drought_stress_nonempty Let_def analyzeGaps_model)

section \<open>Properties of the PDF export\<close>

lemma analyze_payload_props:
  "get_prop analyze_payload (js ''gaps'') = Inr (Some (JArr [wheat_summary, rice_summary]))"
  "get_prop analyze_payload (js ''query'') = Inr None"
  "get_prop analyze_payload (js ''genes'') = Inr None"
  "get_prop analyze_payload (js ''summaries'') = Inr None"
  "get_prop analyze_payload (js ''genes_found'') = Inr (Some payload_genes_found)"
  "get_prop analyze_payload (js ''gene_summaries'') = Inr (Some payload_gene_summaries)"
  by (simp_all add: analyze_payload_def js_def)

lemma summaries_species:
  "get_prop wheat_summary (js ''species'') = Inr (Some (JStr (js ''Triticum aestivum'')))"
  "get_prop rice_summary (js ''species'') = Inr (Some (JStr (js ''Oryza sativa'')))"
  by (simp_all add: wheat_summary_def rice_summary_def js_def)

lemma rice_is_not_wheat: "js ''Oryza sativa'' \<noteq> js ''Triticum aestivum''"
  by (simp add: js_def)

lemma filteredGaps_wheat:
  "filteredGaps [js ''Triticum aestivum''] analyze_payload = Inr [wheat_summary]"
  by (simp add: filteredGaps_def analyze_payload_props js_or_def summaries_species
      includes_value_def rice_is_not_wheat)

lemma export_body_wheat:
  "export_body page_export [js ''Triticum aestivum''] [wheat_summary] =
     Inr (JObj [(js ''query'', JStr (js ''drought stress signaling'')),
                (js ''source_species'', JStr (js ''Arabidopsis thaliana'')),
                (js ''target_species'', JArr [JStr (js ''Triticum aestivum'')]),
                (js ''gaps'', JArr [wheat_summary]),
                (js ''genes'', JArr []),
                (js ''summaries'', JArr [])])"
  by (simp add: export_body_def page_export_def analyze_payload_props js_or_def)

lemma generatePDFWithSelection_wheat:
  "generatePDFWithSelection page_export =
     Inr [Fetch \<lparr>req_url = API_BASE @ js ''/export/pdf'', req_method = js ''POST'',
       req_body = Some (JObj [(js ''query'', JStr (js ''drought stress signaling'')),
                (js ''source_species'', JStr (js ''Arabidopsis thaliana'')),
                (js ''target_species'', JArr [JStr (js ''Triticum aestivum'')]),
                (js ''gaps'', JArr [wheat_summary]),
                (js ''genes'', JArr []),
                (js ''summaries'', JArr [])])\<rparr>]"
proof -
  have stored: "analysisResults page_export = analyze_payload"
    by (simp add: page_export_def)
  have selected: "checked_values (export_org page_export) = [js ''Triticum aestivum'']"
    by (simp add: page_export_def checked_values_def)
  show ?thesis
    by (simp add: generatePDFWithSelection_def selected Let_def stored filteredGaps_wheat
        export_body_wheat)
qed

lemma filter_by_species_objects:
  "filter_by_species selectedOrgs (map JObj objs) =
     Inr (map JObj (filter (\<lambda>props. includes_value selectedOrgs (map_of props (js ''species''))) objs))"
  by (induction objs) simp_all

lemma generatePDFWithSelection_posts:
  assumes stored: "analysisResults pg = JObj props"
    and gaps: "map_of props (js ''gaps'') = Some (JArr (map JObj summaries))"
    and selected: "checked_values (export_org pg) \<noteq> []"
  shows "posted_field (generatePDFWithSelection pg) (js ''gaps'') =
      Some (JArr (map JObj (filter
        (\<lambda>summary. includes_value (checked_values (export_org pg)) (map_of summary (js ''species'')))
        summaries)))"
    and "posted_field (generatePDFWithSelection pg) (js ''genes'') =
      Some (js_or (map_of props (js ''genes'')) (JArr []))"
    and "posted_field (generatePDFWithSelection pg) (js ''summaries'') =
      Some (js_or (map_of props (js ''summaries'')) (JArr []))"
proof -
  let ?kept = "map JObj (filter
        (\<lambda>summary. includes_value (checked_values (export_org pg)) (map_of summary (js ''species'')))
        summaries)"
  have filtered: "filteredGaps (checked_values (export_org pg)) (analysisResults pg) = Inr ?kept"
    by (simp add: filteredGaps_def stored gaps js_or_def filter_by_species_objects)
  have body: "export_body pg (checked_values (export_org pg)) ?kept =
      Inr (JObj
        [(js ''query'', js_or (map_of props (js ''query'')) (JStr (search_input pg))),
         (js ''source_species'', JStr (source_species pg)),
         (js ''target_species'', JArr (map JStr (checked_values (export_org pg)))),
         (js ''gaps'', JArr ?kept),
         (js ''genes'', js_or (map_of props (js ''genes'')) (JArr [])),
         (js ''summaries'', js_or (map_of props (js ''summaries'')) (JArr []))])"
    by (simp add: export_body_def stored)
  have run: "generatePDFWithSelection pg =
      Inr [Fetch \<lparr>req_url = API_BASE @ js ''/export/pdf'', req_method = js ''POST'',
        req_body = Some (JObj
        [(js ''query'', js_or (map_of props (js ''query'')) (JStr (search_input pg))),
         (js ''source_species'', JStr (source_species pg)),
         (js ''target_species'', JArr (map JStr (checked_values (export_org pg)))),
         (js ''gaps'', JArr ?kept),
         (js ''genes'', js_or (map_of props (js ''genes'')) (JArr [])),
         (js ''summaries'', js_or (map_of props (js ''summaries'')) (JArr []))])\<rparr>]"
    using selected by (simp add: generatePDFWithSelection_def Let_def filtered body)
  show "posted_field (generatePDFWithSelection pg) (js ''gaps'') = Some (JArr ?kept)"
    by (simp add: run posted_field_def body_field_def js_def)
  show "posted_field (generatePDFWithSelection pg) (js ''genes'') =
      Some (js_or (map_of props (js ''genes'')) (JArr []))"
    by (simp add: run posted_field_def body_field_def js_def)
  show "posted_field (generatePDFWithSelection pg) (js ''summaries'') =
      Some (js_or (map_of props (js ''summaries'')) (JArr []))"
    by (simp add: run posted_field_def body_field_def js_def)
qed

text \<open>
  Claim C3, at a payload of \<open>/analyze\<close> with two genes found and one summary, exported with
  wheat selected. The posted \<open>gaps\<close> are the stored summaries of the selected species; the
  posted \<open>genes\<close> and \<open>summaries\<close> are empty lists, although the stored result has a gene
  list and a summary under \<open>genes_found\<close> and \<open>gene_summaries\<close>, because the export reads
  the properties \<open>genes\<close> and \<open>summaries\<close>, which the stored result does not have.
\<close>

theorem generatePDFWithSelection_posts_no_genes:
  "posted_field (generatePDFWithSelection page_export) (js ''gaps'') = Some (JArr [wheat_summary])
   \<and> posted_field (generatePDFWithSelection page_export) (js ''genes'') = Some (JArr [])
   \<and> posted_field (generatePDFWithSelection page_export) (js ''summaries'') = Some (JArr [])
   \<and> get_prop (analysisResults page_export) (js ''genes_found'') = Inr (Some payload_genes_found)
   \<and> get_prop (analysisResults page_export) (js ''gene_summaries'') = Inr (Some payload_gene_summaries)
   \<and> payload_genes_found \<noteq> JArr []
   \<and> payload_gene_summaries \<noteq> JArr []"
proof -
  have stored: "analysisResults page_export = analyze_payload"
    by (simp add: page_export_def)
  have "posted_field (generatePDFWithSelection page_export) (js ''gaps'') = Some (JArr [wheat_summary])"
    by (simp add: generatePDFWithSelection_wheat posted_field_def body_field_def js_def)
  moreover have "posted_field (generatePDFWithSelection page_export) (js ''genes'') = Some (JArr [])"
    by (simp add: generatePDFWithSelection_wheat posted_field_def body_field_def js_def)
  moreover have "posted_field (generatePDFWithSelection page_export) (js ''summaries'') = Some (JArr [])"
    by (simp add: generatePDFWithSelection_wheat posted_field_def body_field_def js_def)
  moreover have "payload_genes_found \<noteq> JArr []" "payload_gene_summaries \<noteq> JArr []"
    by (simp_all add: payload_genes_found_def payload_gene_summaries_def)
  ultimately show ?thesis
    by (simp add: stored analyze_payload_props)
qed

section \<open>Properties of the gap levels\<close>

lemma classify_thresholds:
  "(classify s t = Some complete_gap \<longleftrightarrow> t = 0)
   \<and> (classify s t = Some severe_gap \<longleftrightarrow> 1 \<le> t \<and> t \<le> 3)
   \<and> (classify s t = Some moderate_gap \<longleftrightarrow> 4 \<le> t \<and> t \<le> 10)
   \<and> (classify s t = Some studied \<longleftrightarrow> t > 10)"
  by (auto simp: classify_def)

lemma classify_ignores_source: "classify s t = classify s' t"
  by (simp add: classify_def)

lemma formatGapLevel_names:
  "formatGapLevel (js ''complete_gap'') = [0xD83D, 0xDD34] @ js '' No publications''"
  "formatGapLevel (js ''severe_gap'') = [0xD83D, 0xDFE0] @ js '' 1-3 publications''"
  "formatGapLevel (js ''moderate_gap'') = [0xD83D, 0xDFE1] @ js '' 4-10 publications''"
  "formatGapLevel (js ''studied'') = [0xD83D, 0xDFE2] @ js '' Well studied''"
  by (simp_all add: formatGapLevel_def js_def)

lemma formatGapLevel_labels:
  "formatGapLevel (gap_level_name complete_gap) = [0xD83D, 0xDD34] @ js '' No publications''"
  "formatGapLevel (gap_level_name severe_gap) = [0xD83D, 0xDFE0] @ js '' 1-3 publications''"
  "formatGapLevel (gap_level_name moderate_gap) = [0xD83D, 0xDFE1] @ js '' 4-10 publications''"
  "formatGapLevel (gap_level_name studied) = [0xD83D, 0xDFE2] @ js '' Well studied''"
  by (simp_all add: formatGapLevel_names)

lemma gap_label_ranges:
  "(gap_label s t = Some ([0xD83D, 0xDD34] @ js '' No publications'') \<longleftrightarrow> t = 0)
   \<and> (gap_label s t = Some ([0xD83D, 0xDFE0] @ js '' 1-3 publications'') \<longleftrightarrow> 1 \<le> t \<and> t \<le> 3)
   \<and> (gap_label s t = Some ([0xD83D, 0xDFE1] @ js '' 4-10 publications'') \<longleftrightarrow> 4 \<le> t \<and> t \<le> 10)
   \<and> (gap_label s t = Some ([0xD83D, 0xDFE2] @ js '' Well studied'') \<longleftrightarrow> t > 10)"
  by (simp add: gap_label_def classify_def formatGapLevel_names)

text \<open>
  Claim C1. For every integer \<open>t\<close> and whatever the source count, \<open>classify\<close> yields
  \<open>complete_gap\<close> iff \<open>t = 0\<close>, \<open>severe_gap\<close> iff \<open>1 \<le> t \<le> 3\<close>, \<open>moderate_gap\<close> iff
  \<open>4 \<le> t \<le> 10\<close> and \<open>studied\<close> iff \<open>t > 10\<close>; and \<open>formatGapLevel\<close> labels the four
  levels "No publications", "1-3 publications", "4-10 publications" and "Well studied", so
  that each label is shown for exactly the counts of its range.
\<close>

theorem classify_thresholds_and_labels:
  "(classify s t = Some complete_gap \<longleftrightarrow> t = 0)
   \<and> (classify s t = Some severe_gap \<longleftrightarrow> 1 \<le> t \<and> t \<le> 3)
   \<and> (classify s t = Some moderate_gap \<longleftrightarrow> 4 \<le> t \<and> t \<le> 10)
   \<and> (classify s t = Some studied \<longleftrightarrow> t > 10)
   \<and> classify s t = classify s' t
   \<and> formatGapLevel (gap_level_name complete_gap) = [0xD83D, 0xDD34] @ js '' No publications''
   \<and> formatGapLevel (gap_level_name severe_gap) = [0xD83D, 0xDFE0] @ js '' 1-3 publications''
   \<and> formatGapLevel (gap_level_name moderate_gap) = [0xD83D, 0xDFE1] @ js '' 4-10 publications''
   \<and> formatGapLevel (gap_level_name studied) = [0xD83D, 0xDFE2] @ js '' Well studied''
   \<and> (gap_label s t = Some ([0xD83D, 0xDD34] @ js '' No publications'') \<longleftrightarrow> t = 0)
   \<and> (gap_label s t = Some ([0xD83D, 0xDFE0] @ js '' 1-3 publications'') \<longleftrightarrow> 1 \<le> t \<and> t \<le> 3)
   \<and> (gap_label s t = Some ([0xD83D, 0xDFE1] @ js '' 4-10 publications'') \<longleftrightarrow> 4 \<le> t \<and> t \<le> 10)
   \<and> (gap_label s t = Some ([0xD83D, 0xDFE2] @ js '' Well studied'') \<longleftrightarrow> t > 10)"
  using classify_thresholds [of s t] classify_ignores_source [of s t s'] gap_label_ranges [of s t]
  by (simp only: formatGapLevel_labels simp_thms)

section \<open>Properties of the priority score\<close>

lemma priority_score_mono_source:
  assumes "s \<le> s'"
  shows "priority_score lo hi s m t \<le> priority_score lo hi s' m t"
proof -
  have "ln (1 + real s) \<le> ln (1 + real s')"
    using assms by simp
  then have "ln (1 + real s) * real m \<le> ln (1 + real s') * real m"
    by (rule mult_right_mono) simp
  then have "ln (1 + real s) * real m * (1 / (real t + 1))
      \<le> ln (1 + real s') * real m * (1 / (real t + 1))"
    by (rule mult_right_mono) simp
  then show ?thesis
    unfolding priority_score_def by (intro min.mono max.mono order_refl)
qed

lemma priority_score_antimono_target:
  assumes "t \<le> t'"
  shows "priority_score lo hi s m t' \<le> priority_score lo hi s m t"
proof -
  have "1 / (real t' + 1) \<le> 1 / (real t + 1)"
    using assms by (simp add: frac_le)
  moreover have "0 \<le> ln (1 + real s) * real m"
    by simp
  ultimately have "ln (1 + real s) * real m * (1 / (real t' + 1))
      \<le> ln (1 + real s) * real m * (1 / (real t + 1))"
    by (rule mult_left_mono)
  then show ?thesis
    unfolding priority_score_def by (intro min.mono max.mono order_refl)
qed

lemma ranks_before_tie:
  "snd a = snd b \<Longrightarrow> fst a \<noteq> fst b \<Longrightarrow>
   (ranks_before a b \<longleftrightarrow> fst a < fst b) \<and> (ranks_before a b \<longleftrightarrow> \<not> ranks_before b a)"
  by (auto simp: ranks_before_def)

text \<open>
  Claim C5. With the target count fixed, a larger source count never gives a smaller
  priority score; with the source count fixed, a larger target count never gives a larger
  one; and of two genes with equal scores and different names, the one whose name is smaller
  ranks first, and only that one.
\<close>

theorem priority_score_monotone:
  "(s \<le> s' \<longrightarrow> priority_score lo hi s m t \<le> priority_score lo hi s' m t)
   \<and> (t \<le> t' \<longrightarrow> priority_score lo hi s m t' \<le> priority_score lo hi s m t)
   \<and> (snd a = snd b \<and> fst a \<noteq> fst b \<longrightarrow>
        (ranks_before a b \<longleftrightarrow> fst a < fst b) \<and> (ranks_before a b \<longleftrightarrow> \<not> ranks_before b a))"
  using priority_score_mono_source [of s s' lo hi m t]
    priority_score_antimono_target [of t t' lo hi s m] ranks_before_tie [of a b]
  by blast

theorem priority_score_monotone_witness:
  "(8::nat) \<le> 45
   \<and> priority_score 0 100 8 12 0 \<le> priority_score 0 100 45 12 0
   \<and> (0::nat) \<le> 2
   \<and> priority_score 0 100 45 12 2 \<le> priority_score 0 100 45 12 0
   \<and> ranks_before (js ''CBF1'', 7) (js ''DREB2A'', 7)
   \<and> \<not> ranks_before (js ''DREB2A'', 7) (js ''CBF1'', 7)"
proof -
  have names: "js ''CBF1'' < js ''DREB2A''" "js ''CBF1'' \<noteq> js ''DREB2A''"
    by (simp_all add: js_def)
  show ?thesis
    using names
      priority_score_monotone [of 8 45 0 100 12 0 2 "(js ''CBF1'', 7)" "(js ''DREB2A'', 7)"]
      priority_score_monotone [of 45 45 0 100 12 0 2 "(js ''CBF1'', 7)" "(js ''DREB2A'', 7)"]
    by simp
qed

end
